theory Spec2Isabelle
  imports Main
begin

section \<open>JavaScript values at the JSON boundaries\<close>

text \<open>
  The Worker and the Durable Object exchange JSON, and the code reads it as \<open>any\<close>:
  request bodies, the stored session, history entries and the model's answer. A value
  of JavaScript's \<open>undefined\<close> (a property that is absent) is \<open>None\<close> of
  \<open>json option\<close>; every other value is a \<open>json\<close>. An object is the list of its own
  properties, read with \<open>map_of\<close>. Numbers are the integer-valued ones (counts and
  timestamps are the only numbers the code creates).
\<close>

datatype json =
    JNull
  | JBool bool
  | JNum int
  | JStr string
  | JArr "json list"
  | JObj "(string \<times> json) list"

text \<open>Truthiness, as \<open>!x\<close>, \<open>x && y\<close> and \<open>x || y\<close> test it.\<close>

fun truthy :: "json \<Rightarrow> bool" where
  "truthy JNull = False"
| "truthy (JBool b) = b"
| "truthy (JNum n) = (n \<noteq> 0)"
| "truthy (JStr s) = (s \<noteq> [])"
| "truthy (JArr xs) = True"
| "truthy (JObj kvs) = True"

definition truthy_opt :: "json option \<Rightarrow> bool" where
  "truthy_opt v = (case v of None \<Rightarrow> False | Some x \<Rightarrow> truthy x)"

text \<open>\<open>a || b\<close> where \<open>a\<close> may be undefined and \<open>b\<close> is a value.\<close>

definition js_or :: "json option \<Rightarrow> json \<Rightarrow> json" where
  "js_or a b = (case a of None \<Rightarrow> b | Some x \<Rightarrow> if truthy x then x else b)"

text \<open>
  \<open>v.k\<close> on a value that is not null: an object yields its own property, anything else
  yields undefined. The code reads only the keys \<open>sessionId\<close>, \<open>userMessage\<close>,
  \<open>stage\<close>, \<open>history\<close>, \<open>role\<close>, \<open>content\<close> and \<open>response\<close>, none of which
  a built-in prototype defines.
\<close>

fun get_prop :: "json \<Rightarrow> string \<Rightarrow> json option" where
  "get_prop (JObj kvs) k = map_of kvs k"
| "get_prop v k = None"

text \<open>Errors the code can meet: a TypeError or a SyntaxError of the engine, or a
  rejected call of a binding (storage, stub, model) with the message it carries.\<close>

datatype js_error = TypeError | SyntaxError | Rejected string

text \<open>Decimal digits of a number, as \<open>String(n)\<close> prints an integer (of magnitude
  below \<open>10^21\<close>).\<close>

fun show_nat :: "nat \<Rightarrow> string" where
  "show_nat n =
     (if n < 10 then [''0123456789'' ! n]
      else show_nat (n div 10) @ [''0123456789'' ! (n mod 10)])"

declare show_nat.simps [simp del]

definition show_int :: "int \<Rightarrow> string" where
  "show_int i = (if i < 0 then ''-'' @ show_nat (nat (- i)) else show_nat (nat i))"

text \<open>
  \<open>String(v)\<close>. An array prints its elements joined by commas, a null element as the
  empty string. A plain object prints through \<open>Object.prototype.toString\<close>, unless it
  has an own property \<open>toString\<close>: a JSON value is never callable, the inherited
  \<open>valueOf\<close> returns the object itself, and the conversion throws a TypeError
  (\<open>None\<close>).
\<close>

fun js_String :: "json \<Rightarrow> string option"
  and js_join :: "json list \<Rightarrow> string option" where
  "js_String JNull = Some ''null''"
| "js_String (JBool b) = Some (if b then ''true'' else ''false'')"
| "js_String (JNum n) = Some (show_int n)"
| "js_String (JStr s) = Some s"
| "js_String (JArr xs) = js_join xs"
| "js_String (JObj kvs) =
     (if ''toString'' \<in> fst ` set kvs then None else Some ''[object Object]'')"
| "js_join [] = Some []"
| "js_join (x # xs) =
     (case (if x = JNull then Some [] else js_String x) of
        None \<Rightarrow> None
      | Some s \<Rightarrow>
          (if xs = [] then Some s
           else (case js_join xs of None \<Rightarrow> None | Some r \<Rightarrow> Some (s @ '','' @ r))))"

section \<open>workflow.ts: stage prompts and the stage transition\<close>

definition initial_prompt :: string where
  "initial_prompt =
       ''You are a robotics troubleshooting expert. A user is describing a robot problem.\<newline>''
     @ ''\<newline>''
     @ ''Ask only the most essential questions you need to understand the situation. Start with basic context:\<newline>''
     @ ''- What type of robot and what problem are they experiencing?\<newline>''
     @ ''\<newline>''
     @ ''If the user already provided details, acknowledge them and ask follow-up questions as needed. Don't ask questions they've already answered.\<newline>''
     @ ''\<newline>''
     @ ''Be conversational, friendly, and concise.''"

definition diagnostic_prompt :: string where
  "diagnostic_prompt =
       ''You are a robotics troubleshooting expert analyzing a specific robot problem.\<newline>''
     @ ''\<newline>''
     @ ''Based on what the user has told you:\<newline>''
     @ ''- If you strongly suspect a specific cause, ask 1-2 targeted questions to confirm it\<newline>''
     @ ''- If the issue is still unclear, ask the most relevant diagnostic question\<newline>''
     @ ''\<newline>''
     @ ''Consider:\<newline>''
     @ ''- Mechanical issues (misalignment, wear, binding)\<newline>''
     @ ''- Electrical issues (power, servo failures, wiring)\<newline>''
     @ ''- Control issues (PID tuning, sensor calibration)\<newline>''
     @ ''- Software issues (bugs, incorrect parameters)\<newline>''
     @ ''- And a lot more\<newline>''
     @ ''\<newline>''
     @ ''Be efficient - don't ask unnecessary questions if you can already identify the problem.''"

definition solution_prompt :: string where
  "solution_prompt =
       ''You are a robotics troubleshooting expert. You have gathered sufficient information.\<newline>''
     @ ''\<newline>''
     @ ''Provide a clear, structured diagnosis with BLANK LINES between each section:\<newline>''
     @ ''\<newline>''
     @ ''**Root Cause**: What is causing the problem\<newline>''
     @ ''\<newline>''
     @ ''**Solution Steps**: \<newline>''
     @ ''1. First action\<newline>''
     @ ''2. Second action\<newline>''
     @ ''3. Third action\<newline>''
     @ ''\<newline>''
     @ ''**Prevention**: How to avoid this in future\<newline>''
     @ ''\<newline>''
     @ ''**Parts/Tools**: List any components needed\<newline>''
     @ ''\<newline>''
     @ ''IMPORTANT: Add two line breaks (NEW LINES) between each Solution step for readability. Be practical, actionable, and specific.''"

definition prompts :: "(string \<times> string) list" where
  "prompts =
     [(''initial'', initial_prompt),
      (''diagnostic'', diagnostic_prompt),
      (''solution'', solution_prompt)]"

text \<open>
  \<open>prompts\<close> is an object literal, so \<open>prompts[stage]\<close> also finds what
  \<open>Object.prototype\<close> defines. Those members are functions (and, for \<open>__proto__\<close>,
  the prototype object): all truthy, none a string.
\<close>

definition object_prototype_keys :: "string list" where
  "object_prototype_keys =
     [''constructor'', ''__defineGetter__'', ''__defineSetter__'', ''hasOwnProperty'',
      ''__lookupGetter__'', ''__lookupSetter__'', ''isPrototypeOf'',
      ''propertyIsEnumerable'', ''toString'', ''valueOf'', ''__proto__'',
      ''toLocaleString'']"

datatype prompt = Text string | Inherited string

text \<open>\<open>return prompts[stage] || prompts.initial\<close>\<close>

definition getSystemPromptForStage :: "string \<Rightarrow> prompt" where
  "getSystemPromptForStage stage =
     (case map_of prompts stage of
        Some p \<Rightarrow> (if p \<noteq> [] then Text p else Text initial_prompt)
      | None \<Rightarrow>
          (if stage \<in> set object_prototype_keys then Inherited stage
           else Text initial_prompt))"

text \<open>\<open>toLowerCase\<close> on the ASCII letters; the transition computes it and never reads it.\<close>

definition toLowerCase :: "string \<Rightarrow> string" where
  "toLowerCase s =
     map (\<lambda>c. if 65 \<le> (of_char c :: nat) \<and> (of_char c :: nat) \<le> 90
              then char_of ((of_char c :: nat) + 32) else c) s"

definition solutionKeywords :: "string list" where
  "solutionKeywords =
     [''root cause'', ''likely cause'', ''problem is'', ''issue is'',
      ''reduce'', ''increase'', ''replace'', ''upgrade'', ''try this'',
      ''adjust'', ''calibrate'', ''check the'', ''verify the'']"

definition determineNextStage :: "string \<Rightarrow> string \<Rightarrow> 'a list \<Rightarrow> string" where
  "determineNextStage currentStage userMessage history =
     (let lower = toLowerCase userMessage in
      if currentStage = ''initial'' then
        (if 2 \<le> length history then ''diagnostic'' else ''initial'')
      else if currentStage = ''diagnostic'' then
        (let keywords = solutionKeywords in
         if 4 \<le> length history then ''solution'' else ''diagnostic'')
      else ''solution'')"

text \<open>\<open>DiagnosisWorkflow.run\<close>: the prompt of the current stage, and the next stage.\<close>

record DiagnosisInput =
  in_sessionId :: json
  in_userMessage :: string
  in_conversationHistory :: "json list"
  in_currentStage :: string

record DiagnosisOutput =
  out_systemPrompt :: prompt
  out_nextStage :: string
  out_sessionId :: json

definition run :: "DiagnosisInput \<Rightarrow> DiagnosisOutput" where
  "run trigger =
     (let systemPrompt = getSystemPromptForStage (in_currentStage trigger);
          nextStage = determineNextStage (in_currentStage trigger) (in_userMessage trigger)
                        (in_conversationHistory trigger)
      in \<lparr>out_systemPrompt = systemPrompt, out_nextStage = nextStage,
          out_sessionId = in_sessionId trigger\<rparr>)"

text \<open>
  A session as the policy sees it: the stage each turn starts from, when every turn
  stores the stage the policy returned. A turn is the user's message and the history
  read for it; nothing is assumed of either.
\<close>

fun stages_visited :: "string \<Rightarrow> (string \<times> 'a list) list \<Rightarrow> string list" where
  "stages_visited s [] = [s]"
| "stages_visited s ((m, h) # ts) = s # stages_visited (determineNextStage s m h) ts"

text \<open>The order \<open>initial < diagnostic < solution\<close> of the spec.\<close>

definition stage_rank :: "string \<Rightarrow> nat" where
  "stage_rank s = (if s = ''initial'' then 0 else if s = ''diagnostic'' then 1 else 2)"

section \<open>index.ts: the Durable Object \<open>AdvisorState\<close>\<close>

text \<open>
  The object's storage holds two keys. Under \<open>history\<close> it holds the JSON text of an
  array, written by \<open>JSON.stringify\<close> and read back by \<open>JSON.parse\<close>; the model keeps
  the array that text denotes. Under \<open>stage\<close> it holds the value it was given.
  \<open>None\<close> is a key never written.
\<close>

record storage =
  history_slot :: "json list option"
  stage_slot :: "json option"

text \<open>The history the store reads: \<open>JSON.parse(storage.get('history') || '[]')\<close>.\<close>

definition stored_history :: "storage \<Rightarrow> json list" where
  "stored_history st = (case history_slot st of None \<Rightarrow> [] | Some h \<Rightarrow> h)"

text \<open>
  A call of \<open>storage.get\<close> or \<open>storage.put\<close> may reject (the value is too large, the
  storage is unavailable). \<open>Some msg\<close> is a call that rejects with an error of
  message \<open>msg\<close>.
\<close>

type_synonym fault = "string option"

record do_faults =
  get_history_fault :: fault
  get_stage_fault :: fault
  put_history_fault :: fault
  put_stage_fault :: fault

definition no_faults :: do_faults where
  "no_faults = \<lparr>get_history_fault = None, get_stage_fault = None,
                 put_history_fault = None, put_stage_fault = None\<rparr>"

text \<open>
  A response: its status and its JSON body. \<open>ErrorBody e\<close> is the body
  \<open>{error: error.message}\<close> of a \<open>catch\<close> block that caught \<open>e\<close>.
\<close>

datatype response_body = JsonBody json | ErrorBody js_error

record response =
  status :: nat
  body :: response_body

definition json_response :: "json \<Rightarrow> response" where
  "json_response j = \<lparr>status = 200, body = JsonBody j\<rparr>"

definition error_response :: "js_error \<Rightarrow> response" where
  "error_response e = \<lparr>status = 500, body = ErrorBody e\<rparr>"

text \<open>\<open>{ role: r, content: c, timestamp: Date.now() }\<close>, \<open>t\<close> being the clock's reading.\<close>

definition chat_message :: "string \<Rightarrow> json \<Rightarrow> int \<Rightarrow> json" where
  "chat_message r c t = JObj [(''role'', JStr r), (''content'', c), (''timestamp'', JNum t)]"

text \<open>
  \<open>AdvisorState.handleMessage\<close>, on the three fields of the request's body (all
  present, as \<open>handleChat\<close> sends them). The two
  readings of the clock are \<open>t1\<close> and \<open>t2\<close>. Whatever throws inside the \<open>try\<close> is
  answered with status 500; what was stored before stays stored.
\<close>

definition handleMessage ::
  "do_faults \<Rightarrow> int \<Rightarrow> int \<Rightarrow> json \<Rightarrow> json \<Rightarrow> json \<Rightarrow> storage \<Rightarrow> response \<times> storage" where
  "handleMessage f t1 t2 userMessage assistantMessage nextStage st =
     (case get_history_fault f of
        Some msg \<Rightarrow> (error_response (Rejected msg), st)
      | None \<Rightarrow>
          (let history0 = stored_history st;
               history1 = history0 @ [chat_message ''user'' userMessage t1];
               history2 = history1 @ [chat_message ''assistant'' assistantMessage t2]
           in case put_history_fault f of
                Some msg \<Rightarrow> (error_response (Rejected msg), st)
              | None \<Rightarrow>
                  (let st1 = st\<lparr>history_slot := Some history2\<rparr>
                   in case put_stage_fault f of
                        Some msg \<Rightarrow> (error_response (Rejected msg), st1)
                      | None \<Rightarrow>
                          (json_response
                             (JObj [(''success'', JBool True),
                                    (''messageCount'', JNum (int (length history2))),
                                    (''stage'', nextStage)]),
                           st1\<lparr>stage_slot := Some nextStage\<rparr>))))"

text \<open>\<open>AdvisorState.getState\<close>: \<open>stage\<close> falls back to \<open>initial\<close> when the stored value
  is absent or falsy.\<close>

definition getState :: "do_faults \<Rightarrow> storage \<Rightarrow> response" where
  "getState f st =
     (case get_history_fault f of
        Some msg \<Rightarrow> error_response (Rejected msg)
      | None \<Rightarrow>
          (case get_stage_fault f of
             Some msg \<Rightarrow> error_response (Rejected msg)
           | None \<Rightarrow>
               (let stage = js_or (stage_slot st) (JStr ''initial'');
                    history = stored_history st
                in json_response
                     (JObj [(''stage'', stage),
                            (''messageCount'', JNum (int (length history))),
                            (''history'', JArr history)]))))"

section \<open>index.ts: the Worker's \<open>handleChat\<close>\<close>

text \<open>A message of the generation request. Its content is a text, or (for a system
  prompt looked up under a key of \<open>Object.prototype\<close>) an inherited member.\<close>

record AiMessage =
  role :: string
  content :: prompt

text \<open>\<open>conversationHistory.slice(-8)\<close>\<close>

definition last8 :: "'a list \<Rightarrow> 'a list" where
  "last8 xs = drop (length xs - 8) xs"

text \<open>The filter \<open>m && m.role && m.content\<close>\<close>

definition keeps :: "json \<Rightarrow> bool" where
  "keeps m = (truthy m \<and> truthy_opt (get_prop m ''role'') \<and> truthy_opt (get_prop m ''content''))"

text \<open>\<open>String(x)\<close> where \<open>x\<close> may be undefined.\<close>

definition js_String_opt :: "json option \<Rightarrow> string option" where
  "js_String_opt v = (case v of None \<Rightarrow> Some ''undefined'' | Some x \<Rightarrow> js_String x)"

text \<open>The map \<open>{ role: String(m.role), content: String(m.content) }\<close>; \<open>None\<close> when a
  conversion throws.\<close>

definition to_message :: "json \<Rightarrow> AiMessage option" where
  "to_message m =
     (case js_String_opt (get_prop m ''role'') of
        None \<Rightarrow> None
      | Some r \<Rightarrow>
          (case js_String_opt (get_prop m ''content'') of
             None \<Rightarrow> None
           | Some c \<Rightarrow> Some \<lparr>role = r, content = Text c\<rparr>))"

text \<open>The messages array: the system prompt, the kept entries of the last eight, the
  user's message. \<open>None\<close> when a conversion throws a TypeError.\<close>

definition build_messages :: "prompt \<Rightarrow> json list \<Rightarrow> string \<Rightarrow> AiMessage list option" where
  "build_messages systemPrompt conversationHistory userMessage =
     (case those (map to_message (filter keeps (last8 conversationHistory))) of
        None \<Rightarrow> None
      | Some hs \<Rightarrow>
          Some ([\<lparr>role = ''system'', content = systemPrompt\<rparr>] @ hs
                @ [\<lparr>role = ''user'', content = Text userMessage\<rparr>]))"

text \<open>\<open>String(aiResponse.response || aiResponse)\<close>; reading a property of null throws.\<close>

definition assistant_text :: "json \<Rightarrow> js_error + string" where
  "assistant_text aiResponse =
     (if aiResponse = JNull then Inl TypeError
      else (case js_String (js_or (get_prop aiResponse ''response'') aiResponse) of
              None \<Rightarrow> Inl TypeError
            | Some s \<Rightarrow> Inr s))"

text \<open>
  \<open>diagnosisWorkflow.run\<close> as \<open>handleChat\<close> calls it, with the stage the store returned.
  A stage that is not a string is turned into a key by \<open>prompts[stage]\<close> (which may
  throw) and equals none of the stage names.
\<close>

definition run_any :: "json \<Rightarrow> string \<Rightarrow> json list \<Rightarrow> json \<Rightarrow> DiagnosisOutput option" where
  "run_any sessionId userMessage conversationHistory currentStage =
     (case currentStage of
        JStr s \<Rightarrow>
          Some (run \<lparr>in_sessionId = sessionId, in_userMessage = userMessage,
                     in_conversationHistory = conversationHistory, in_currentStage = s\<rparr>)
      | v \<Rightarrow>
          (case js_String v of
             None \<Rightarrow> None
           | Some k \<Rightarrow>
               Some \<lparr>out_systemPrompt = getSystemPromptForStage k,
                     out_nextStage = ''solution'', out_sessionId = sessionId\<rparr>))"

text \<open>
  What one request meets: whether each call of the stub rejects before the object runs,
  the storage faults inside the object, the model's answer to a request (or its
  error), and the clock read by the object.
\<close>

record env =
  state_fetch_fault :: fault
  state_faults :: do_faults
  ai_run :: "AiMessage list \<Rightarrow> js_error + json"
  message_fetch_fault :: fault
  message_faults :: do_faults
  clock1 :: int
  clock2 :: int

text \<open>The calls a request makes, in order, and the session they act on.\<close>

datatype call =
    StoreRead
  | ModelRun "AiMessage list"
  | StoreWrite string string string

record world =
  session :: storage
  calls :: "call list"

text \<open>The property \<open>stage\<close>, \<open>history\<close> or \<open>messageCount\<close> of a response's parsed
  body; the body \<open>{error: ...}\<close> has none of them.\<close>

definition body_prop :: "response \<Rightarrow> string \<Rightarrow> json option" where
  "body_prop r k = (case body r of JsonBody j \<Rightarrow> get_prop j k | ErrorBody e \<Rightarrow> None)"

text \<open>
  \<open>handleChat\<close>, on what \<open>request.json()\<close> yields: \<open>None\<close> when the body is not JSON
  (the call rejects with a SyntaxError), the parsed value otherwise. Destructuring
  \<open>null\<close> throws a TypeError. The world is the object the session identifier names;
  the stub's two requests go to its \<open>getState\<close> and \<open>handleMessage\<close>. The model is
  called with the fixed sampling parameters of the source. Whatever throws is answered
  by the \<open>catch\<close> block with status 500. The function is given in four parts, the
  later steps first.
\<close>

definition bad_request :: response where
  "bad_request =
     \<lparr>status = 400,
      body = JsonBody (JObj [(''error'', JStr ''sessionId and userMessage required'')])\<rparr>"

text \<open>Steps 6 and 7: the save request, then the reply. The response of the save
  request is awaited and not looked at.\<close>

definition handleChat_save ::
  "env \<Rightarrow> json \<Rightarrow> string \<Rightarrow> string \<Rightarrow> string \<Rightarrow> world \<Rightarrow> response \<times> world" where
  "handleChat_save e sessionId userMessage assistantMessage nextStage w =
     (let w' = w\<lparr>calls := calls w @ [StoreWrite userMessage assistantMessage nextStage]\<rparr>
      in case message_fetch_fault e of
           Some msg \<Rightarrow> (error_response (Rejected msg), w')
         | None \<Rightarrow>
             (let saved = handleMessage (message_faults e) (clock1 e) (clock2 e)
                            (JStr userMessage) (JStr assistantMessage) (JStr nextStage)
                            (session w')
              in (json_response
                    (JObj [(''message'', JStr assistantMessage),
                           (''stage'', JStr nextStage),
                           (''sessionId'', sessionId)]),
                  w'\<lparr>session := snd saved\<rparr>)))"

text \<open>Steps 4 and 5: the messages array, the call of the model, the text of its
  answer.\<close>

definition handleChat_generate ::
  "env \<Rightarrow> json \<Rightarrow> string \<Rightarrow> json list \<Rightarrow> DiagnosisOutput \<Rightarrow> world \<Rightarrow> response \<times> world" where
  "handleChat_generate e sessionId userMessage conversationHistory workflowResult w =
     (let systemPrompt = out_systemPrompt workflowResult;
          nextStage = out_nextStage workflowResult
      in case build_messages systemPrompt conversationHistory userMessage of
           None \<Rightarrow> (error_response TypeError, w)
         | Some messages \<Rightarrow>
             (let w' = w\<lparr>calls := calls w @ [ModelRun messages]\<rparr>
              in case ai_run e messages of
                   Inl err \<Rightarrow> (error_response err, w')
                 | Inr aiResponse \<Rightarrow>
                     (case assistant_text aiResponse of
                        Inl err \<Rightarrow> (error_response err, w')
                      | Inr assistantMessage \<Rightarrow>
                          handleChat_save e sessionId userMessage assistantMessage nextStage w')))"

text \<open>
  Steps 2 and 3: the state request and the workflow. A \<open>userMessage\<close> that is not a
  string has no \<open>toLowerCase\<close>, and a history that is not an array has no \<open>filter\<close>:
  a TypeError either way.
\<close>

definition handleChat_turn :: "env \<Rightarrow> json \<Rightarrow> json \<Rightarrow> world \<Rightarrow> response \<times> world" where
  "handleChat_turn e sessionId userMessage w =
     (let w' = w\<lparr>calls := calls w @ [StoreRead]\<rparr>
      in case state_fetch_fault e of
           Some msg \<Rightarrow> (error_response (Rejected msg), w')
         | None \<Rightarrow>
             (let stateRes = getState (state_faults e) (session w');
                  currentStage = js_or (body_prop stateRes ''stage'') (JStr ''initial'');
                  conversationHistory = js_or (body_prop stateRes ''history'') (JArr [])
              in case (userMessage, conversationHistory) of
                   (JStr m, JArr hist) \<Rightarrow>
                     (case run_any sessionId m hist currentStage of
                        None \<Rightarrow> (error_response TypeError, w')
                      | Some workflowResult \<Rightarrow>
                          handleChat_generate e sessionId m hist workflowResult w')
                 | _ \<Rightarrow> (error_response TypeError, w')))"

text \<open>Step 1, and the whole: the body is read, its two fields are checked.\<close>

definition handleChat :: "env \<Rightarrow> json option \<Rightarrow> world \<Rightarrow> response \<times> world" where
  "handleChat e parsed w =
     (case parsed of
        None \<Rightarrow> (error_response SyntaxError, w)
      | Some req \<Rightarrow>
          (if req = JNull then (error_response TypeError, w)
           else
             (let sessionId = get_prop req ''sessionId'';
                  userMessage = get_prop req ''userMessage''
              in if \<not> truthy_opt sessionId \<or> \<not> truthy_opt userMessage then (bad_request, w)
                 else
                   (case (sessionId, userMessage) of
                      (Some sid, Some um) \<Rightarrow> handleChat_turn e sid um w
                    | _ \<Rightarrow> (bad_request, w)))))"

section \<open>Turns as the store writes them\<close>

text \<open>
  The interface \<open>ChatMessage\<close> of the source (the spec's Turn): a role, a text and a
  timestamp. \<open>stored\<close> is the entry the store keeps for a turn, \<open>sent\<close> the message
  the generation request carries for it.
\<close>

datatype chat_role = User | Assistant

fun role_name :: "chat_role \<Rightarrow> string" where
  "role_name User = ''user''"
| "role_name Assistant = ''assistant''"

record ChatMessage =
  cm_role :: chat_role
  cm_content :: string
  cm_timestamp :: int

definition stored :: "ChatMessage \<Rightarrow> json" where
  "stored t = chat_message (role_name (cm_role t)) (JStr (cm_content t)) (cm_timestamp t)"

definition sent :: "ChatMessage \<Rightarrow> AiMessage" where
  "sent t = \<lparr>role = role_name (cm_role t), content = Text (cm_content t)\<rparr>"

text \<open>Whether a property is present and a string.\<close>

fun is_text :: "json option \<Rightarrow> bool" where
  "is_text (Some (JStr s)) = True"
| "is_text v = False"

section \<open>A sample session\<close>

definition exchange1 :: "ChatMessage list" where
  "exchange1 =
     [\<lparr>cm_role = User, cm_content = ''my line follower oscillates'', cm_timestamp = 1000\<rparr>,
      \<lparr>cm_role = Assistant, cm_content = ''What type of robot is it?'', cm_timestamp = 1001\<rparr>]"

definition exchange2 :: "ChatMessage list" where
  "exchange2 =
     [\<lparr>cm_role = User, cm_content = ''a two wheel robot'', cm_timestamp = 2000\<rparr>,
      \<lparr>cm_role = Assistant, cm_content = ''When does it oscillate?'', cm_timestamp = 2001\<rparr>]"

definition exchange3 :: "ChatMessage list" where
  "exchange3 =
     [\<lparr>cm_role = User, cm_content = ''on straight lines'', cm_timestamp = 3000\<rparr>,
      \<lparr>cm_role = Assistant, cm_content = ''Reduce the proportional gain.'', cm_timestamp = 3001\<rparr>]"

definition exchange4 :: "ChatMessage list" where
  "exchange4 =
     [\<lparr>cm_role = User, cm_content = ''it still oscillates'', cm_timestamp = 4000\<rparr>,
      \<lparr>cm_role = Assistant, cm_content = ''Check the sensor spacing.'', cm_timestamp = 4001\<rparr>]"

definition exchange5 :: "ChatMessage list" where
  "exchange5 =
     [\<lparr>cm_role = User, cm_content = ''that fixed it'', cm_timestamp = 5000\<rparr>,
      \<lparr>cm_role = Assistant, cm_content = ''Glad to hear it.'', cm_timestamp = 5001\<rparr>]"

text \<open>An exchange whose assistant turn was stored with an empty text.\<close>

definition silent_exchange :: "ChatMessage list" where
  "silent_exchange =
     [\<lparr>cm_role = User, cm_content = ''that fixed it'', cm_timestamp = 5000\<rparr>,
      \<lparr>cm_role = Assistant, cm_content = '''', cm_timestamp = 5001\<rparr>]"

text \<open>A request on a fresh session: the model answers, and the object's
  \<open>storage.put\<close> of the history rejects.\<close>

definition fresh_world :: world where
  "fresh_world = \<lparr>session = \<lparr>history_slot = None, stage_slot = None\<rparr>, calls = []\<rparr>"

definition first_request :: json where
  "first_request =
     JObj [(''sessionId'', JStr ''s1''), (''userMessage'', JStr ''my line follower oscillates'')]"

definition failing_write_env :: env where
  "failing_write_env =
     \<lparr>state_fetch_fault = None,
      state_faults = no_faults,
      ai_run = (\<lambda>messages. Inr (JObj [(''response'', JStr ''What type of robot is it?'')])),
      message_fetch_fault = None,
      message_faults = no_faults\<lparr>put_history_fault := Some ''storage unavailable''\<rparr>,
      clock1 = 1000,
      clock2 = 1001\<rparr>"

text \<open>A stored session after one exchange.\<close>

definition busy_world :: world where
  "busy_world =
     \<lparr>session = \<lparr>history_slot = Some (map stored exchange1), stage_slot = Some (JStr ''initial'')\<rparr>,
      calls = []\<rparr>"

text \<open>A history with entries the filter drops: a null, an entry without content, an
  entry with an empty content, a string; and one usable entry.\<close>

definition patchy_history :: "json list" where
  "patchy_history =
     [JNull,
      JObj [(''role'', JStr ''user''), (''timestamp'', JNum 900)],
      chat_message ''assistant'' (JStr '''') 901,
      chat_message ''user'' (JStr ''my line follower oscillates'') 1000,
      JStr ''note'']"

section \<open>The stage transition\<close>

lemma determineNextStage_range:
  "determineNextStage s m h \<in> {''initial'', ''diagnostic'', ''solution''}"
  by (simp add: determineNextStage_def Let_def)

lemma determineNextStage_rank:
  "stage_rank s \<le> stage_rank (determineNextStage s m h)"
  by (simp add: determineNextStage_def stage_rank_def Let_def)

lemma stages_visited_range:
  "s \<in> {''initial'', ''diagnostic'', ''solution''} \<Longrightarrow>
   set (stages_visited s ts) \<subseteq> {''initial'', ''diagnostic'', ''solution''}"
proof (induction ts arbitrary: s)
  case Nil
  then show ?case by simp
next
  case (Cons t ts)
  obtain m h where t: "t = (m, h)" by (cases t)
  have "set (stages_visited (determineNextStage s m h) ts)
          \<subseteq> {''initial'', ''diagnostic'', ''solution''}"
    by (rule Cons.IH) (rule determineNextStage_range)
  with Cons.prems t show ?case by simp
qed

lemma stages_visited_above:
  "v \<in> set (stages_visited s ts) \<Longrightarrow> stage_rank s \<le> stage_rank v"
proof (induction ts arbitrary: s)
  case Nil
  then show ?case by simp
next
  case (Cons t ts)
  obtain m h where t: "t = (m, h)" by (cases t)
  from Cons.prems t
  consider "v = s" | "v \<in> set (stages_visited (determineNextStage s m h) ts)"
    by auto
  then show ?case
  proof cases
    case 1
    then show ?thesis by simp
  next
    case 2
    then have "stage_rank (determineNextStage s m h) \<le> stage_rank v"
      by (rule Cons.IH)
    with determineNextStage_rank [of s m h] show ?thesis by (rule le_trans)
  qed
qed

lemma stages_visited_sorted: "sorted (map stage_rank (stages_visited s ts))"
proof (induction ts arbitrary: s)
  case Nil
  then show ?case by simp
next
  case (Cons t ts)
  obtain m h where t: "t = (m, h)" by (cases t)
  have "\<forall>v \<in> set (stages_visited (determineNextStage s m h) ts). stage_rank s \<le> stage_rank v"
    using stages_visited_above determineNextStage_rank le_trans by blast
  with Cons.IH [of "determineNextStage s m h"] t show ?case by simp
qed

lemma rank_solution:
  "v \<in> {''initial'', ''diagnostic'', ''solution''} \<Longrightarrow> 2 \<le> stage_rank v \<Longrightarrow> v = ''solution''"
  by (auto simp: stage_rank_def)

text \<open>
  C1. The decision table of the transition: from \<open>initial\<close>, a history shorter than 2
  keeps \<open>initial\<close> and one of length at least 2 gives \<open>diagnostic\<close>; from
  \<open>diagnostic\<close>, a history shorter than 4 keeps \<open>diagnostic\<close> and one of length at
  least 4 gives \<open>solution\<close>; from \<open>solution\<close> the next stage is \<open>solution\<close>, for
  every history and every user message.
\<close>

theorem determineNextStage_decision_table:
  "(length history < 2 \<longrightarrow> determineNextStage ''initial'' userMessage history = ''initial'') \<and>
   (2 \<le> length history \<longrightarrow> determineNextStage ''initial'' userMessage history = ''diagnostic'') \<and>
   (length history < 4 \<longrightarrow> determineNextStage ''diagnostic'' userMessage history = ''diagnostic'') \<and>
   (4 \<le> length history \<longrightarrow> determineNextStage ''diagnostic'' userMessage history = ''solution'') \<and>
   determineNextStage ''solution'' userMessage history = ''solution''"
  by (simp add: determineNextStage_def Let_def)

theorem determineNextStage_decision_table_witness:
  "determineNextStage ''initial'' ''my line follower oscillates'' ([] :: json list) = ''initial'' \<and>
   determineNextStage ''initial'' ''it is a two wheel robot''
     [chat_message ''user'' (JStr ''my line follower oscillates'') 1000,
      chat_message ''assistant'' (JStr ''What type of robot is it?'') 1001] = ''diagnostic'' \<and>
   determineNextStage ''diagnostic'' ''on straight lines''
     [chat_message ''user'' (JStr ''my line follower oscillates'') 1000,
      chat_message ''assistant'' (JStr ''What type of robot is it?'') 1001] = ''diagnostic'' \<and>
   determineNextStage ''diagnostic'' ''on straight lines''
     [chat_message ''user'' (JStr ''my line follower oscillates'') 1000,
      chat_message ''assistant'' (JStr ''What type of robot is it?'') 1001,
      chat_message ''user'' (JStr ''it is a two wheel robot'') 2000,
      chat_message ''assistant'' (JStr ''When does it oscillate?'') 2001] = ''solution'' \<and>
   determineNextStage ''solution'' ''thanks'' ([] :: json list) = ''solution''"
  using
    determineNextStage_decision_table [of "[] :: json list" "''my line follower oscillates''"]
    determineNextStage_decision_table
      [of "[chat_message ''user'' (JStr ''my line follower oscillates'') 1000,
            chat_message ''assistant'' (JStr ''What type of robot is it?'') 1001]"
          "''it is a two wheel robot''"]
    determineNextStage_decision_table
      [of "[chat_message ''user'' (JStr ''my line follower oscillates'') 1000,
            chat_message ''assistant'' (JStr ''What type of robot is it?'') 1001]"
          "''on straight lines''"]
    determineNextStage_decision_table
      [of "[chat_message ''user'' (JStr ''my line follower oscillates'') 1000,
            chat_message ''assistant'' (JStr ''What type of robot is it?'') 1001,
            chat_message ''user'' (JStr ''it is a two wheel robot'') 2000,
            chat_message ''assistant'' (JStr ''When does it oscillate?'') 2001]"
          "''on straight lines''"]
    determineNextStage_decision_table [of "[] :: json list" "''thanks''"]
  by simp



text \<open>
  C6. A session that starts at \<open>initial\<close> and stores, turn after turn, the stage the
  policy returns visits only the three stages, never moves backward in the order
  \<open>initial < diagnostic < solution\<close>, and stays at \<open>solution\<close> once it is there,
  whatever the messages and the histories of its turns.
\<close>

theorem stage_progression_monotone:
  "set (stages_visited ''initial'' turns) \<subseteq> {''initial'', ''diagnostic'', ''solution''} \<and>
   sorted (map stage_rank (stages_visited ''initial'' turns)) \<and>
   (\<forall>i j. i \<le> j \<and> j < length (stages_visited ''initial'' turns) \<and>
          stages_visited ''initial'' turns ! i = ''solution''
          \<longrightarrow> stages_visited ''initial'' turns ! j = ''solution'')"
proof (intro conjI allI impI)
  let ?vs = "stages_visited ''initial'' turns"
  show range: "set ?vs \<subseteq> {''initial'', ''diagnostic'', ''solution''}"
    by (rule stages_visited_range) simp
  show sorted: "sorted (map stage_rank ?vs)"
    by (rule stages_visited_sorted)
  fix i j
  assume h: "i \<le> j \<and> j < length ?vs \<and> ?vs ! i = ''solution''"
  from sorted have "\<forall>a b. a \<le> b \<longrightarrow> b < length ?vs \<longrightarrow> stage_rank (?vs ! a) \<le> stage_rank (?vs ! b)"
    by (simp add: sorted_iff_nth_mono del: sorted_map)
  with h have "stage_rank (?vs ! i) \<le> stage_rank (?vs ! j)"
    by blast
  with h have "2 \<le> stage_rank (?vs ! j)"
    by (simp add: stage_rank_def)
  moreover from h range have "?vs ! j \<in> {''initial'', ''diagnostic'', ''solution''}"
    using nth_mem by blast
  ultimately show "?vs ! j = ''solution''"
    by (rule rank_solution [rotated])
qed

theorem stage_progression_monotone_witness:
  "stages_visited ''initial''
     [(''my line follower oscillates'', []),
      (''a two wheel robot'', map stored exchange1),
      (''on straight lines'', map stored (exchange1 @ exchange2)),
      (''thanks'', map stored (exchange1 @ exchange2 @ exchange3))]
   = [''initial'', ''initial'', ''diagnostic'', ''solution'', ''solution''] \<and>
   sorted (map stage_rank (stages_visited ''initial''
     [(''my line follower oscillates'', []),
      (''a two wheel robot'', map stored exchange1),
      (''on straight lines'', map stored (exchange1 @ exchange2)),
      (''thanks'', map stored (exchange1 @ exchange2 @ exchange3))])) \<and>
   stages_visited ''initial''
     [(''my line follower oscillates'', []),
      (''a two wheel robot'', map stored exchange1),
      (''on straight lines'', map stored (exchange1 @ exchange2)),
      (''thanks'', map stored (exchange1 @ exchange2 @ exchange3))] ! 4 = ''solution''"
proof -
  let ?turns = "[(''my line follower oscillates'', []),
      (''a two wheel robot'', map stored exchange1),
      (''on straight lines'', map stored (exchange1 @ exchange2)),
      (''thanks'', map stored (exchange1 @ exchange2 @ exchange3))]"
  have vs: "stages_visited ''initial'' ?turns
              = [''initial'', ''initial'', ''diagnostic'', ''solution'', ''solution'']"
    by (simp add: determineNextStage_def Let_def exchange1_def exchange2_def exchange3_def)
  have all: "\<forall>i j. i \<le> j \<and> j < length (stages_visited ''initial'' ?turns) \<and>
          stages_visited ''initial'' ?turns ! i = ''solution''
          \<longrightarrow> stages_visited ''initial'' ?turns ! j = ''solution''"
    using stage_progression_monotone [of ?turns] by blast
  have "(3::nat) \<le> 4 \<and> 4 < length (stages_visited ''initial'' ?turns) \<and>
        stages_visited ''initial'' ?turns ! 3 = ''solution''"
    unfolding vs by simp
  with all have "stages_visited ''initial'' ?turns ! 4 = ''solution''"
    by blast
  with vs stage_progression_monotone [of ?turns] show ?thesis
    by blast
qed

lemma initial_prompt_nonempty: "initial_prompt \<noteq> []"
  by (simp add: initial_prompt_def)

lemma diagnostic_prompt_nonempty: "diagnostic_prompt \<noteq> []"
  by (simp add: diagnostic_prompt_def)

lemma solution_prompt_nonempty: "solution_prompt \<noteq> []"
  by (simp add: solution_prompt_def)

lemma getSystemPromptForStage_initial: "getSystemPromptForStage ''initial'' = Text initial_prompt"
  by (simp add: getSystemPromptForStage_def prompts_def)

lemma determineNextStage_fallthrough:
  "s \<noteq> ''initial'' \<Longrightarrow> s \<noteq> ''diagnostic'' \<Longrightarrow> determineNextStage s m h = ''solution''"
  by (simp add: determineNextStage_def Let_def)

text \<open>A stage name that \<open>Object.prototype\<close> defines finds the inherited member, not a
  prompt.\<close>

lemma getSystemPromptForStage_inherited:
  "getSystemPromptForStage ''constructor'' = Inherited ''constructor''"
  by (simp add: getSystemPromptForStage_def prompts_def object_prototype_keys_def)

text \<open>
  C3 (the code at an unrecognised stage). For a stage name outside the three, the
  prompt is the one of \<open>initial\<close>, but the next stage is \<open>solution\<close>, where
  \<open>initial\<close> on the same empty history stays at \<open>initial\<close>.
\<close>

theorem unrecognised_stage_jumps_to_solution:
  "determineNextStage ''paused'' ''my line follower oscillates'' ([] :: json list) = ''solution'' \<and>
   determineNextStage ''initial'' ''my line follower oscillates'' ([] :: json list) = ''initial'' \<and>
   getSystemPromptForStage ''paused'' = getSystemPromptForStage ''initial''"
  by (simp add: determineNextStage_def getSystemPromptForStage_def prompts_def
      object_prototype_keys_def)

section \<open>The generation request\<close>

lemma those_map_Some: "those (map (\<lambda>x. Some (f x)) xs) = Some (map f xs)"
  by (induction xs) simp_all

lemma those_eq_Some: "those xs = Some ys \<longleftrightarrow> xs = map Some ys"
proof (induction xs arbitrary: ys)
  case Nil
  then show ?case by auto
next
  case (Cons x xs)
  then show ?case by (cases x; cases ys) auto
qed

lemma those_total: "\<forall>x \<in> set xs. x \<noteq> None \<Longrightarrow> \<exists>ys. those xs = Some ys"
proof (induction xs)
  case Nil
  then show ?case by simp
next
  case (Cons x xs)
  then obtain y ys where "x = Some y" "those xs = Some ys" by auto
  then show ?case by simp
qed

lemma length_last8: "length (last8 xs) = min 8 (length xs)"
  by (simp add: last8_def)

lemma last8_map: "last8 (map f xs) = map f (last8 xs)"
  by (simp add: last8_def drop_map)

lemma role_name_nonempty: "role_name r \<noteq> []"
  by (cases r) simp_all

lemma keeps_stored: "keeps (stored t) \<longleftrightarrow> cm_content t \<noteq> []"
  by (simp add: keeps_def stored_def chat_message_def truthy_opt_def role_name_nonempty)

lemma to_message_stored: "to_message (stored t) = Some (sent t)"
  by (simp add: to_message_def stored_def chat_message_def sent_def js_String_opt_def)

lemma filter_keeps_stored:
  "filter keeps (map stored ts) = map stored (filter (\<lambda>t. cm_content t \<noteq> []) ts)"
  by (induction ts) (simp_all add: keeps_stored)

lemma build_messages_stored:
  "build_messages systemPrompt (map stored ts) userMessage =
     Some (\<lparr>role = ''system'', content = systemPrompt\<rparr>
           # map sent (filter (\<lambda>t. cm_content t \<noteq> []) (last8 ts))
           @ [\<lparr>role = ''user'', content = Text userMessage\<rparr>])"
proof -
  have "map to_message (filter keeps (last8 (map stored ts)))
          = map (\<lambda>t. Some (sent t)) (filter (\<lambda>t. cm_content t \<noteq> []) (last8 ts))"
    by (simp add: last8_map filter_keeps_stored to_message_stored comp_def)
  then show ?thesis
    by (simp add: build_messages_def those_map_Some)
qed

text \<open>
  C5 (as the code has it). For a history of 10 stored turns whose last 8 have a
  non-empty text, the request is the system message with the system prompt, then those
  8 turns in their order, each as its role and text, then the user message with the new
  text: 10 messages.
\<close>

theorem ten_turn_history_request:
  assumes "length turns = 10"
    and "\<forall>t \<in> set (drop 2 turns). cm_content t \<noteq> []"
  shows "build_messages systemPrompt (map stored turns) userMessage =
           Some (\<lparr>role = ''system'', content = systemPrompt\<rparr>
                 # map sent (drop 2 turns)
                 @ [\<lparr>role = ''user'', content = Text userMessage\<rparr>])
         \<and> length (\<lparr>role = ''system'', content = systemPrompt\<rparr>
                    # map sent (drop 2 turns)
                    @ [\<lparr>role = ''user'', content = Text userMessage\<rparr>]) = 10"
proof -
  from assms(1) have l8: "last8 turns = drop 2 turns"
    by (simp add: last8_def)
  from assms(2) have "filter (\<lambda>t. cm_content t \<noteq> []) (drop 2 turns) = drop 2 turns"
    by (simp add: filter_id_conv)
  with l8 assms(1) show ?thesis
    by (simp add: build_messages_stored)
qed

theorem ten_turn_history_request_witness:
  "length (exchange1 @ exchange2 @ exchange3 @ exchange4 @ exchange5) = 10 \<and>
   build_messages (Text initial_prompt)
       (map stored (exchange1 @ exchange2 @ exchange3 @ exchange4 @ exchange5)) ''thanks''
     = Some (\<lparr>role = ''system'', content = Text initial_prompt\<rparr>
             # map sent (exchange2 @ exchange3 @ exchange4 @ exchange5)
             @ [\<lparr>role = ''user'', content = Text ''thanks''\<rparr>])"
proof -
  have len: "length (exchange1 @ exchange2 @ exchange3 @ exchange4 @ exchange5) = 10"
    by (simp add: exchange1_def exchange2_def exchange3_def exchange4_def exchange5_def)
  have dr: "drop 2 (exchange1 @ exchange2 @ exchange3 @ exchange4 @ exchange5)
              = exchange2 @ exchange3 @ exchange4 @ exchange5"
    by (simp add: exchange1_def)
  have ne: "\<forall>t \<in> set (drop 2 (exchange1 @ exchange2 @ exchange3 @ exchange4 @ exchange5)).
              cm_content t \<noteq> []"
    unfolding dr
    by (simp add: exchange2_def exchange3_def exchange4_def exchange5_def)
  have "build_messages (Text initial_prompt)
          (map stored (exchange1 @ exchange2 @ exchange3 @ exchange4 @ exchange5)) ''thanks''
        = Some (\<lparr>role = ''system'', content = Text initial_prompt\<rparr>
                # map sent (drop 2 (exchange1 @ exchange2 @ exchange3 @ exchange4 @ exchange5))
                @ [\<lparr>role = ''user'', content = Text ''thanks''\<rparr>])"
    using ten_turn_history_request [OF len ne, of "Text initial_prompt" "''thanks''"]
    by blast
  then have "build_messages (Text initial_prompt)
          (map stored (exchange1 @ exchange2 @ exchange3 @ exchange4 @ exchange5)) ''thanks''
        = Some (\<lparr>role = ''system'', content = Text initial_prompt\<rparr>
                # map sent (exchange2 @ exchange3 @ exchange4 @ exchange5)
                @ [\<lparr>role = ''user'', content = Text ''thanks''\<rparr>])"
    by (simp only: dr)
  with len show ?thesis by blast
qed

theorem ten_turn_history_counterexample:
  "length (exchange1 @ exchange2 @ exchange3 @ exchange4 @ silent_exchange) = 10 \<and>
   map_option length
     (build_messages (Text initial_prompt)
        (map stored (exchange1 @ exchange2 @ exchange3 @ exchange4 @ silent_exchange)) ''thanks'')
     = Some 9"
proof -
  let ?turns = "exchange1 @ exchange2 @ exchange3 @ exchange4 @ silent_exchange"
  have len: "length ?turns = 10"
    by (simp add: exchange1_def exchange2_def exchange3_def exchange4_def silent_exchange_def)
  have kept: "length (filter (\<lambda>t. cm_content t \<noteq> []) (last8 ?turns)) = 7"
    by (simp add: last8_def exchange1_def exchange2_def exchange3_def exchange4_def
        silent_exchange_def)
  have "build_messages (Text initial_prompt) (map stored ?turns) ''thanks'' =
          Some (\<lparr>role = ''system'', content = Text initial_prompt\<rparr>
                # map sent (filter (\<lambda>t. cm_content t \<noteq> []) (last8 ?turns))
                @ [\<lparr>role = ''user'', content = Text ''thanks''\<rparr>])"
    by (rule build_messages_stored)
  then have "map_option length
               (build_messages (Text initial_prompt) (map stored ?turns) ''thanks'') = Some 9"
    by (simp only: option.map length_Cons length_append length_map kept list.size) simp
  with len show ?thesis by blast
qed

lemma to_message_role:
  "to_message m = Some h \<Longrightarrow> js_String_opt (get_prop m ''role'') = Some (role h)"
  by (auto simp: to_message_def split: option.splits)

lemma to_message_content:
  "to_message m = Some h \<Longrightarrow>
   \<exists>c. js_String_opt (get_prop m ''content'') = Some c \<and> content h = Text c"
  by (auto simp: to_message_def split: option.splits)

lemma truthy_text_nonempty:
  "truthy_opt v \<Longrightarrow> is_text v \<Longrightarrow> js_String_opt v = Some s \<Longrightarrow> s \<noteq> []"
  by (cases v rule: is_text.cases) (simp_all add: truthy_opt_def js_String_opt_def)

text \<open>An entry that is null, or has no truthy role, or no truthy content, is not kept.\<close>

lemma keeps_drops:
  "\<not> keeps JNull"
  "\<not> truthy_opt (get_prop m ''role'') \<Longrightarrow> \<not> keeps m"
  "\<not> truthy_opt (get_prop m ''content'') \<Longrightarrow> \<not> keeps m"
  by (simp_all add: keeps_def)

lemma build_messages_throws:
  "m \<in> set (filter keeps (last8 history)) \<Longrightarrow> to_message m = None \<Longrightarrow>
   build_messages systemPrompt history userMessage = None"
proof -
  assume m: "m \<in> set (filter keeps (last8 history))" and n: "to_message m = None"
  have "those (map to_message (filter keeps (last8 history))) = None"
  proof (cases "those (map to_message (filter keeps (last8 history)))")
    case None
    then show ?thesis .
  next
    case (Some hs)
    then have "map to_message (filter keeps (last8 history)) = map Some hs"
      by (simp add: those_eq_Some)
    then have "to_message m \<in> set (map Some hs)"
      using m by (metis image_eqI set_map)
    with n show ?thesis by auto
  qed
  then show ?thesis by (simp add: build_messages_def)
qed

text \<open>
  C10 (as the code has it). When no conversion of a kept entry throws, the request is
  the system message, then one message for each entry of the last 8 that passes the
  filter (in order, its role and content turned into strings), then the user message.
  There are at most min(8, length of the history) such messages, fewer when entries are
  dropped, and a message's role (content) is non-empty when the entry's role (content)
  is a string.
\<close>

theorem build_messages_keeps_usable_entries:
  assumes "\<forall>m \<in> set (filter keeps (last8 history)). to_message m \<noteq> None"
  shows "\<exists>hs. build_messages systemPrompt history userMessage =
                 Some (\<lparr>role = ''system'', content = systemPrompt\<rparr> # hs
                       @ [\<lparr>role = ''user'', content = Text userMessage\<rparr>])
              \<and> map Some hs = map to_message (filter keeps (last8 history))
              \<and> length hs \<le> min 8 (length history)
              \<and> (\<forall>i < length hs.
                    is_text (get_prop (filter keeps (last8 history) ! i) ''role'')
                    \<longrightarrow> role (hs ! i) \<noteq> [])
              \<and> (\<forall>i < length hs.
                    is_text (get_prop (filter keeps (last8 history) ! i) ''content'')
                    \<longrightarrow> content (hs ! i) \<noteq> Text [])"
proof -
  let ?kept = "filter keeps (last8 history)"
  from assms have "\<forall>x \<in> set (map to_message ?kept). x \<noteq> None"
    by auto
  then obtain hs where hs: "those (map to_message ?kept) = Some hs"
    using those_total by blast
  then have corr: "map to_message ?kept = map Some hs"
    by (simp add: those_eq_Some)
  then have len: "length hs = length ?kept"
    by (metis length_map)
  have "length ?kept \<le> length (last8 history)"
    by (rule length_filter_le)
  with len have bound: "length hs \<le> min 8 (length history)"
    by (simp add: length_last8)
  have entry: "to_message (?kept ! i) = Some (hs ! i) \<and> keeps (?kept ! i)" if "i < length hs" for i
  proof -
    from that len have i: "i < length ?kept" by simp
    then have "map to_message ?kept ! i = to_message (?kept ! i)" by simp
    moreover from that have "map Some hs ! i = Some (hs ! i)" by simp
    moreover from i have "?kept ! i \<in> set ?kept" by (rule nth_mem)
    ultimately show ?thesis using corr by simp
  qed
  have roles: "role (hs ! i) \<noteq> []"
    if "i < length hs" "is_text (get_prop (?kept ! i) ''role'')" for i
  proof -
    from entry [OF that(1)] have "js_String_opt (get_prop (?kept ! i) ''role'') = Some (role (hs ! i))"
      and "truthy_opt (get_prop (?kept ! i) ''role'')"
      by (simp_all add: to_message_role keeps_def)
    with that(2) show ?thesis by (simp add: truthy_text_nonempty)
  qed
  have contents: "content (hs ! i) \<noteq> Text []"
    if "i < length hs" "is_text (get_prop (?kept ! i) ''content'')" for i
  proof -
    from entry [OF that(1)] obtain c
      where "js_String_opt (get_prop (?kept ! i) ''content'') = Some c" "content (hs ! i) = Text c"
        and "truthy_opt (get_prop (?kept ! i) ''content'')"
      using to_message_content by (auto simp: keeps_def)
    with that(2) show ?thesis using truthy_text_nonempty by auto
  qed
  from hs have "build_messages systemPrompt history userMessage =
                  Some (\<lparr>role = ''system'', content = systemPrompt\<rparr> # hs
                        @ [\<lparr>role = ''user'', content = Text userMessage\<rparr>])"
    by (simp add: build_messages_def)
  with corr bound roles contents show ?thesis by (intro exI [of _ hs]) simp
qed

theorem build_messages_keeps_usable_entries_witness:
  "filter keeps (last8 patchy_history)
     = [chat_message ''user'' (JStr ''my line follower oscillates'') 1000] \<and>
   to_message (chat_message ''user'' (JStr ''my line follower oscillates'') 1000)
     = Some \<lparr>role = ''user'', content = Text ''my line follower oscillates''\<rparr> \<and>
   build_messages (Text initial_prompt) patchy_history ''thanks''
     = Some [\<lparr>role = ''system'', content = Text initial_prompt\<rparr>,
             \<lparr>role = ''user'', content = Text ''my line follower oscillates''\<rparr>,
             \<lparr>role = ''user'', content = Text ''thanks''\<rparr>]"
proof -
  let ?good = "chat_message ''user'' (JStr ''my line follower oscillates'') 1000"
  have kept: "filter keeps (last8 patchy_history) = [?good]"
    by (simp add: patchy_history_def last8_def keeps_def chat_message_def truthy_opt_def)
  have good: "to_message ?good
                = Some \<lparr>role = ''user'', content = Text ''my line follower oscillates''\<rparr>"
    by (simp add: to_message_def chat_message_def js_String_opt_def)
  have hyp: "\<forall>m \<in> set (filter keeps (last8 patchy_history)). to_message m \<noteq> None"
    unfolding kept using good by simp
  from build_messages_keeps_usable_entries [OF hyp, of "Text initial_prompt" "''thanks''"]
  obtain hs where
    req: "build_messages (Text initial_prompt) patchy_history ''thanks'' =
            Some (\<lparr>role = ''system'', content = Text initial_prompt\<rparr> # hs
                  @ [\<lparr>role = ''user'', content = Text ''thanks''\<rparr>])"
    and corr: "map Some hs = map to_message (filter keeps (last8 patchy_history))"
    by blast
  from corr have "map Some hs
                    = [Some \<lparr>role = ''user'', content = Text ''my line follower oscillates''\<rparr>]"
    unfolding kept using good by simp
  then have "hs = [\<lparr>role = ''user'', content = Text ''my line follower oscillates''\<rparr>]"
    by auto
  with req kept good show ?thesis by simp
qed

theorem build_messages_empty_role_counterexample:
  "keeps (JObj [(''role'', JArr []), (''content'', JArr [])]) \<and>
   build_messages (Text initial_prompt)
       [JObj [(''role'', JArr []), (''content'', JArr [])]] ''thanks''
     = Some [\<lparr>role = ''system'', content = Text initial_prompt\<rparr>,
             \<lparr>role = '''', content = Text ''''\<rparr>,
             \<lparr>role = ''user'', content = Text ''thanks''\<rparr>]"
  by (simp add: build_messages_def last8_def keeps_def truthy_opt_def to_message_def
      js_String_opt_def)

section \<open>The text of the model's answer\<close>




section \<open>The session store\<close>

lemma getState_history:
  "body_prop (getState no_faults st) ''history'' = Some (JArr (stored_history st))"
  by (simp add: getState_def no_faults_def json_response_def body_prop_def Let_def)

lemma getState_stage:
  "body_prop (getState no_faults st) ''stage'' = Some (js_or (stage_slot st) (JStr ''initial''))"
  by (simp add: getState_def no_faults_def json_response_def body_prop_def Let_def)

lemma handleMessage_stores:
  "handleMessage no_faults t1 t2 userMessage assistantMessage nextStage st =
     (json_response
        (JObj [(''success'', JBool True),
               (''messageCount'', JNum (int (length (stored_history st)) + 2)),
               (''stage'', nextStage)]),
      \<lparr>history_slot = Some (stored_history st
                             @ [chat_message ''user'' userMessage t1,
                                chat_message ''assistant'' assistantMessage t2]),
       stage_slot = Some nextStage\<rparr>)"
  by (simp add: handleMessage_def no_faults_def Let_def add.commute)

text \<open>
  C9 (as the code has it). With no storage fault, writing
  \<open>(userMessage, assistantMessage, nextStage)\<close> and then reading yields the history
  read before the write followed by a user turn with the written user message and an
  assistant turn with the written assistant message, each with its clock reading, and a
  message count larger by 2. The stage read is the written \<open>nextStage\<close> when that value
  is truthy, and \<open>initial\<close> when it is falsy.
\<close>

theorem write_then_read:
  "body_prop (getState no_faults st) ''history'' = Some (JArr (stored_history st)) \<and>
   body_prop
       (getState no_faults
          (snd (handleMessage no_faults t1 t2 userMessage assistantMessage nextStage st)))
       ''history''
     = Some (JArr (stored_history st
                   @ [chat_message ''user'' userMessage t1,
                      chat_message ''assistant'' assistantMessage t2])) \<and>
   body_prop
       (getState no_faults
          (snd (handleMessage no_faults t1 t2 userMessage assistantMessage nextStage st)))
       ''messageCount''
     = Some (JNum (int (length (stored_history st)) + 2)) \<and>
   body_prop
       (getState no_faults
          (snd (handleMessage no_faults t1 t2 userMessage assistantMessage nextStage st)))
       ''stage''
     = Some (if truthy nextStage then nextStage else JStr ''initial'')"
proof -
  let ?st' = "snd (handleMessage no_faults t1 t2 userMessage assistantMessage nextStage st)"
  have slots:
    "stored_history ?st' = stored_history st
        @ [chat_message ''user'' userMessage t1, chat_message ''assistant'' assistantMessage t2]"
    "stage_slot ?st' = Some nextStage"
    by (simp_all add: handleMessage_stores stored_history_def)
  have count: "body_prop (getState no_faults ?st') ''messageCount''
                 = Some (JNum (int (length (stored_history ?st'))))"
    by (simp add: getState_def no_faults_def json_response_def body_prop_def Let_def)
  show ?thesis
    by (simp add: getState_history getState_stage count slots js_or_def)
qed

theorem write_then_read_witness:
  "body_prop
       (getState no_faults
          (snd (handleMessage no_faults 2000 2001 (JStr ''a two wheel robot'')
                  (JStr ''When does it oscillate?'') (JStr ''diagnostic'') (session busy_world))))
       ''history''
     = Some (JArr (map stored (exchange1 @ exchange2))) \<and>
   body_prop
       (getState no_faults
          (snd (handleMessage no_faults 2000 2001 (JStr ''a two wheel robot'')
                  (JStr ''When does it oscillate?'') (JStr ''diagnostic'') (session busy_world))))
       ''stage''
     = Some (JStr ''diagnostic'')"
  using write_then_read
    [of "session busy_world" 2000 2001 "JStr ''a two wheel robot''"
        "JStr ''When does it oscillate?''" "JStr ''diagnostic''"]
  by (simp add: busy_world_def stored_history_def stored_def exchange2_def)

theorem write_then_read_empty_stage_counterexample:
  "body_prop
       (getState no_faults
          (snd (handleMessage no_faults 1000 1001 (JStr ''my line follower oscillates'')
                  (JStr ''What type of robot is it?'') (JStr '''') (session fresh_world))))
       ''stage''
     = Some (JStr ''initial'')"
  by (simp add: handleMessage_stores getState_stage js_or_def)

section \<open>One request of \<open>handleChat\<close>\<close>

lemma bad_request_status: "status bad_request = 400"
  by (simp add: bad_request_def)





lemma getState_fresh:
  "getState no_faults \<lparr>history_slot = None, stage_slot = None\<rparr> =
     json_response (JObj [(''stage'', JStr ''initial''), (''messageCount'', JNum 0),
                          (''history'', JArr [])])"
  by (simp add: getState_def no_faults_def js_or_def stored_history_def Let_def)

lemma handleMessage_put_rejected:
  "get_history_fault f = None \<Longrightarrow> put_history_fault f = Some msg \<Longrightarrow>
   handleMessage f t1 t2 userMessage assistantMessage nextStage st
     = (error_response (Rejected msg), st)"
  by (simp add: handleMessage_def Let_def)

lemma handleChat_save_replies:
  "message_fetch_fault e = None \<Longrightarrow>
   fst (handleChat_save e sessionId userMessage assistantMessage nextStage w)
     = json_response (JObj [(''message'', JStr assistantMessage),
                            (''stage'', JStr nextStage),
                            (''sessionId'', sessionId)])"
  by (simp add: handleChat_save_def Let_def)

text \<open>
  C2 (the code when the store's write fails). On a fresh session the model answers and
  the object's \<open>storage.put\<close> rejects: \<open>handleMessage\<close> answers the save request with
  status 500, and \<open>handleChat\<close> returns status 200 with the generated text; nothing
  was stored.
\<close>

theorem failed_write_returns_reply:
  "fst (handleMessage (message_faults failing_write_env) 1000 1001
          (JStr ''my line follower oscillates'') (JStr ''What type of robot is it?'')
          (JStr ''initial'') (session fresh_world))
     = error_response (Rejected ''storage unavailable'') \<and>
   handleChat failing_write_env (Some first_request) fresh_world
     = (json_response
          (JObj [(''message'', JStr ''What type of robot is it?''),
                 (''stage'', JStr ''initial''),
                 (''sessionId'', JStr ''s1'')]),
        \<lparr>session = \<lparr>history_slot = None, stage_slot = None\<rparr>,
         calls = [StoreRead,
                  ModelRun [\<lparr>role = ''system'', content = Text initial_prompt\<rparr>,
                            \<lparr>role = ''user'', content = Text ''my line follower oscillates''\<rparr>],
                  StoreWrite ''my line follower oscillates'' ''What type of robot is it?''
                    ''initial'']\<rparr>)"
proof -
  have save: "handleMessage (message_faults failing_write_env) 1000 1001
          (JStr ''my line follower oscillates'') (JStr ''What type of robot is it?'')
          (JStr ''initial'') (session fresh_world)
        = (error_response (Rejected ''storage unavailable''), session fresh_world)"
    by (simp add: handleMessage_def failing_write_env_def no_faults_def Let_def)
  have wf: "run_any (JStr ''s1'') ''my line follower oscillates'' [] (JStr ''initial'')
              = Some \<lparr>out_systemPrompt = Text initial_prompt, out_nextStage = ''initial'',
                      out_sessionId = JStr ''s1''\<rparr>"
    by (simp add: run_any_def run_def getSystemPromptForStage_initial determineNextStage_def
        Let_def)
  have msgs: "build_messages (Text initial_prompt) [] ''my line follower oscillates''
                = Some [\<lparr>role = ''system'', content = Text initial_prompt\<rparr>,
                        \<lparr>role = ''user'', content = Text ''my line follower oscillates''\<rparr>]"
    by (simp add: build_messages_def last8_def)
  have reply: "assistant_text (JObj [(''response'', JStr ''What type of robot is it?'')])
               = Inr ''What type of robot is it?''"
    by (simp add: assistant_text_def js_or_def)
  have chat: "handleChat failing_write_env (Some first_request) fresh_world
     = (json_response
          (JObj [(''message'', JStr ''What type of robot is it?''),
                 (''stage'', JStr ''initial''),
                 (''sessionId'', JStr ''s1'')]),
        \<lparr>session = \<lparr>history_slot = None, stage_slot = None\<rparr>,
         calls = [StoreRead,
                  ModelRun [\<lparr>role = ''system'', content = Text initial_prompt\<rparr>,
                            \<lparr>role = ''user'', content = Text ''my line follower oscillates''\<rparr>],
                  StoreWrite ''my line follower oscillates'' ''What type of robot is it?''
                    ''initial'']\<rparr>)"
    using save
    by (simp add: handleChat_def handleChat_turn_def handleChat_generate_def handleChat_save_def
        first_request_def fresh_world_def failing_write_env_def
        truthy_opt_def getState_fresh body_prop_def json_response_def js_or_def wf msgs reply
        Let_def)
  from save chat show ?thesis by simp
qed

theorem failed_write_returns_reply_witness:
  "status (fst (handleMessage (message_faults failing_write_env) 1000 1001
                  (JStr ''my line follower oscillates'') (JStr ''What type of robot is it?'')
                  (JStr ''initial'') (session fresh_world))) = 500 \<and>
   status (fst (handleChat failing_write_env (Some first_request) fresh_world)) = 200 \<and>
   body (fst (handleChat failing_write_env (Some first_request) fresh_world))
     = JsonBody (JObj [(''message'', JStr ''What type of robot is it?''),
                       (''stage'', JStr ''initial''),
                       (''sessionId'', JStr ''s1'')]) \<and>
   session (snd (handleChat failing_write_env (Some first_request) fresh_world)) = session fresh_world"
  using failed_write_returns_reply
  by (simp add: error_response_def json_response_def fresh_world_def)

text \<open>The storage faults of the save request never reach the response of
  \<open>handleChat\<close>; a save request that itself rejects does.\<close>

lemma handleChat_response_ignores_save_faults:
  "fst (handleChat (e\<lparr>message_faults := f\<rparr>) req w) = fst (handleChat e req w)"
  by (simp add: handleChat_def handleChat_turn_def handleChat_generate_def handleChat_save_def
      Let_def split: option.splits sum.splits json.splits prod.splits)

lemma rejected_save_request_is_reported:
  "fst (handleChat (failing_write_env\<lparr>message_fetch_fault := Some ''object unreachable''\<rparr>)
          (Some first_request) fresh_world)
     = error_response (Rejected ''object unreachable'')"
proof -
  have wf: "run_any (JStr ''s1'') ''my line follower oscillates'' [] (JStr ''initial'')
              = Some \<lparr>out_systemPrompt = Text initial_prompt, out_nextStage = ''initial'',
                      out_sessionId = JStr ''s1''\<rparr>"
    by (simp add: run_any_def run_def getSystemPromptForStage_initial determineNextStage_def
        Let_def)
  have msgs: "build_messages (Text initial_prompt) [] ''my line follower oscillates''
                = Some [\<lparr>role = ''system'', content = Text initial_prompt\<rparr>,
                        \<lparr>role = ''user'', content = Text ''my line follower oscillates''\<rparr>]"
    by (simp add: build_messages_def last8_def)
  have reply: "assistant_text (JObj [(''response'', JStr ''What type of robot is it?'')])
               = Inr ''What type of robot is it?''"
    by (simp add: assistant_text_def js_or_def)
  show ?thesis
    by (simp add: handleChat_def handleChat_turn_def handleChat_generate_def handleChat_save_def
        first_request_def fresh_world_def failing_write_env_def
        truthy_opt_def getState_fresh body_prop_def json_response_def js_or_def wf msgs reply
        Let_def)
qed


end
